theory Spec2Isabelle
  imports Main "HOL-Library.Word"
begin

section \<open>Values the handlers work with\<close>

text \<open>
  The handlers of package \<open>api\<close> are embedded as functions over an explicit
  \<open>world\<close>: the tables of the persistence gateway, the trace of gateway calls, the
  logger's output and the goroutines started so far. The package comes in two copies:
  src/unnamed/part_000, where every route is implemented, and src/internal/api/api.go,
  an earlier state in which four routes still panic with "not implemented". The handlers
  below follow part_000; the two copies agree on them except for one statement of
  \<open>GetTripsTripIDActivities\<close>, which is embedded in both forms.

  \<open>uuid.UUID\<close> is a 16-byte array: a 128-bit word. \<open>time.Time\<close> is represented by
  the instant it denotes (nanoseconds since the zero time, January 1 of year 1, UTC) and
  its location pointer; Go's \<open>==\<close> on two \<open>time.Time\<close> values without a monotonic
  reading compares exactly these, and \<open>time.Time{}\<close> is instant 0 with a nil location.
\<close>

type_synonym uuid = "128 word"

record time =
  instant :: int
  loc :: "nat option"

definition zero_time :: time where
  "zero_time = \<lparr>instant = 0, loc = None\<rparr>"

text \<open>\<open>t.Before(u)\<close> compares the instants and ignores the locations.\<close>

definition Before :: "time \<Rightarrow> time \<Rightarrow> bool" where
  "Before t u = (instant t < instant u)"

text \<open>\<open>pgtype.Timestamp\<close>, as the handlers build and read it.\<close>

record Timestamp =
  Time :: time
  Valid :: bool

subsection \<open>Slices\<close>

text \<open>
  A Go slice is either nil (\<open>None\<close>) or holds elements (\<open>Some xs\<close>, where \<open>xs\<close> may be
  empty after a composite literal \<open>[]T{}\<close>). \<open>var s []T\<close> declares the nil slice,
  \<open>append\<close> always returns a non-nil slice, \<open>len\<close> of the nil slice is 0, and indexing
  outside \<open>0..len-1\<close> panics.
\<close>

type_synonym 'a slice = "'a list option"

datatype panic = IndexOutOfRange nat nat

definition elems :: "'a slice \<Rightarrow> 'a list" where
  "elems s = (case s of None \<Rightarrow> [] | Some xs \<Rightarrow> xs)"

definition len :: "'a slice \<Rightarrow> nat" where
  "len s = length (elems s)"

definition append_slice :: "'a slice \<Rightarrow> 'a \<Rightarrow> 'a slice" where
  "append_slice s x = Some (elems s @ [x])"

definition at :: "'a slice \<Rightarrow> nat \<Rightarrow> panic + 'a" where
  "at s i = (if i < len s then Inr (elems s ! i) else Inl (IndexOutOfRange i (len s)))"

subsection \<open>Rows of the gateway (package pgstore) and wire types (package spec)\<close>

record Trip =
  trip_ID :: uuid
  trip_Destination :: string
  trip_OwnerEmail :: string
  trip_OwnerName :: string
  trip_IsConfirmed :: bool
  trip_StartsAt :: Timestamp
  trip_EndsAt :: Timestamp

record Participant =
  part_ID :: uuid
  part_TripID :: uuid
  part_Email :: string
  part_IsConfirmed :: bool

record Activity =
  act_ID :: uuid
  act_TripID :: uuid
  act_Title :: string
  act_OccursAt :: Timestamp

record UpdateTripParams =
  utp_Destination :: string
  utp_EndsAt :: Timestamp
  utp_StartsAt :: Timestamp
  utp_IsConfirmed :: bool
  utp_ID :: uuid

record CreateActivityParams =
  cap_TripID :: uuid
  cap_Title :: string
  cap_OccursAt :: Timestamp

record InviteParticipantsToTripParams =
  ipp_TripID :: uuid
  ipp_Email :: string

record UpdateTripRequest =
  Destination :: string
  EndsAt :: time
  StartsAt :: time

record CreateActivityRequest =
  OccursAt :: time
  Title :: string

record PostTripsTripIDInvitesJSONBody =
  Email :: string

record GetTripActivitiesResponseInnerArray =
  inner_ID :: string
  inner_OccursAt :: time
  inner_Title :: string

record GetTripActivitiesResponseOuterArray =
  Activities :: "GetTripActivitiesResponseInnerArray slice"
  Date :: time

text \<open>
  The generated constructors of \<open>spec.Response\<close> in package spec: every route has its
  own \<open>...JSON400Response\<close> taking a \<open>spec.Error{Message}\<close>, and its
  \<open>...JSON200Response\<close>, \<open>...JSON201Response\<close> or \<open>...JSON204Response\<close> taking the
  body. A response is the constructor the handler called and its argument.
\<close>

datatype response_body =
    Nil_body
  | UpdateTripRequest_body UpdateTripRequest
  | GetTripActivitiesResponse "GetTripActivitiesResponseOuterArray slice"
  | CreateActivityResponse string

datatype response =
    JSON400Response string
  | JSON200Response response_body
  | JSON201Response response_body
  | JSON204Response response_body

section \<open>The world: gateway tables, call trace, log, goroutines\<close>

datatype store_error = ErrNoRows | ErrTxClosed | ErrOther

datatype store_call =
    Call_GetParticipant uuid
  | Call_ConfirmParticipant uuid
  | Call_GetTrip uuid
  | Call_UpdateTrip UpdateTripParams
  | Call_GetTripActivities uuid
  | Call_CreateActivity CreateActivityParams
  | Call_Begin
  | Call_InviteParticipantsToTrip "InviteParticipantsToTripParams list"
  | Call_Commit
  | Call_Rollback
  | Call_GetParticipants uuid

datatype goroutine = Go_SendEmailInvitations uuid

text \<open>
  A \<open>mail.Msg\<close> of github.com/wneessen/go-mail, as the mailer fills it: the address
  headers the library has accepted, the subject, and the two values the body text is
  formatted with (the trip's destination and the day it starts).
\<close>

record message =
  msg_addresses :: "(string \<times> string) list"
  msg_Subject :: string
  msg_Body :: "(string \<times> time) option"

definition NewMsg :: message where
  "NewMsg = \<lparr>msg_addresses = [], msg_Subject = [], msg_Body = None\<rparr>"

text \<open>
  An error built by \<open>fmt.Errorf("...: %w", err)\<close>: the text before the colon and the
  wrapped error, which comes from the gateway or from the mail library.
\<close>

datatype cause = Store_cause store_error | Lib_cause string

datatype mailer_error = Errorf string cause

text \<open>
  \<open>faults\<close> is the environment's choice of the gateway calls that fail for a reason of
  the infrastructure (connection lost, constraint violated); \<open>calls\<close> records every
  gateway call in order; \<open>tx_open\<close> and \<open>tx_pending\<close> are the transaction of the
  connection \<open>pool.Begin\<close> hands out; \<open>sent\<close> holds the messages the mail client has
  delivered.
\<close>

record world =
  trips :: "Trip list"
  participants :: "Participant list"
  activities :: "Activity list"
  next_id :: uuid
  tx_open :: bool
  tx_pending :: "Participant list"
  faults :: "store_call \<Rightarrow> bool"
  calls :: "store_call list"
  logs :: "string list"
  goroutines :: "goroutine list"
  sent :: "message list"

definition called :: "store_call \<Rightarrow> world \<Rightarrow> world" where
  "called c w = w\<lparr>calls := calls w @ [c]\<rparr>"

definition logger_Error :: "string \<Rightarrow> world \<Rightarrow> world" where
  "logger_Error msg w = w\<lparr>logs := logs w @ [msg]\<rparr>"

definition slice_of :: "'a list \<Rightarrow> 'a slice" where
  "slice_of xs = (if xs = [] then None else Some xs)"

text \<open>
  Modelled from the spec: the Persistence Gateway (package pgstore is not among the
  sources). \<open>getTripActivities(tripId) -> sequence of Activity\<close>: the rows of the trip in
  stored order, which the contract leaves unordered.
\<close>

definition GetTripActivities :: "world \<Rightarrow> uuid \<Rightarrow> (store_error + Activity slice) \<times> world" where
  "GetTripActivities w tripID =
     (if faults w (Call_GetTripActivities tripID) then Inl ErrOther
      else Inr (slice_of (filter (\<lambda>a. act_TripID a = tripID) (activities w))),
      called (Call_GetTripActivities tripID) w)"

text \<open>
  What the handlers take from outside the repository: \<open>uuid.Parse\<close> and
  \<open>UUID.String\<close> of github.com/google/uuid, the JSON decoder applied to the request
  body (the error and the value left in the destination), the struct validator, whose
  rules are the tags of the request types in package spec, and the mail library
  github.com/wneessen/go-mail: \<open>Msg.From\<close> and \<open>Msg.To\<close>, which return an error or
  change the message, \<open>mail.NewClient\<close>, which may fail, and \<open>Client.DialAndSend\<close>,
  which delivers the message or fails.
\<close>

record API =
  uuid_Parse :: "string \<Rightarrow> uuid option"
  uuid_String :: "uuid \<Rightarrow> string"
  Decode_UpdateTripRequest :: "string \<Rightarrow> string option \<times> UpdateTripRequest"
  Decode_InvitesBody :: "string \<Rightarrow> string option \<times> PostTripsTripIDInvitesJSONBody"
  validator_UpdateTripRequest :: "UpdateTripRequest \<Rightarrow> string option"
  validator_InvitesBody :: "PostTripsTripIDInvitesJSONBody \<Rightarrow> string option"
  mail_From :: "message \<Rightarrow> string \<Rightarrow> string + message"
  mail_To :: "message \<Rightarrow> string \<Rightarrow> string + message"
  mail_NewClient :: "string option"
  mail_DialAndSend :: "message \<Rightarrow> string option"

record request =
  req_Body :: string

section \<open>GET /trips/{tripId}/activities\<close>

text \<open>
  \<open>GetTripsTripIDActivities\<close>: part_000 lines 216-282, api.go lines 211-273.
  The first loop (part_000 lines 239-245): one response record per activity, \<open>i\<close> from
  0 to \<open>len(acts)\<close>.
\<close>

function project_loop ::
  "API \<Rightarrow> Activity slice \<Rightarrow> nat \<Rightarrow> GetTripActivitiesResponseInnerArray slice
   \<Rightarrow> panic + GetTripActivitiesResponseInnerArray slice" where
  "project_loop api acts i responseActs =
     (if i < len acts then
        (case at acts i of
           Inl p \<Rightarrow> Inl p
         | Inr a \<Rightarrow>
             project_loop api acts (i + 1)
               (append_slice responseActs
                  \<lparr>inner_ID = uuid_String api (act_ID a),
                   inner_OccursAt = Time (act_OccursAt a),
                   inner_Title = act_Title a\<rparr>))
      else Inr responseActs)"
  by pat_completeness auto
termination
  by (relation "measure (\<lambda>(api, acts, i, r). len acts - i)") auto

text \<open>
  The second loop (part_000 lines 249-257): the date of record 0 is appended; for \<open>j > 0\<close> the date of record
  \<open>j\<close> is appended when it differs from \<open>responseActsDates[j-1]\<close>. The index \<open>j-1\<close>
  is taken in \<open>responseActsDates\<close>, as the source has it.
\<close>

function dates_loop ::
  "GetTripActivitiesResponseInnerArray slice \<Rightarrow> nat \<Rightarrow> time slice \<Rightarrow> panic + time slice" where
  "dates_loop responseActs j responseActsDates =
     (if j < len responseActs then
        (case at responseActs j of
           Inl p \<Rightarrow> Inl p
         | Inr r \<Rightarrow>
             if j = 0 then
               dates_loop responseActs (j + 1) (append_slice responseActsDates (inner_OccursAt r))
             else
               (case at responseActsDates (j - 1) of
                  Inl p \<Rightarrow> Inl p
                | Inr d \<Rightarrow>
                    if d \<noteq> inner_OccursAt r then
                      dates_loop responseActs (j + 1)
                        (append_slice responseActsDates (inner_OccursAt r))
                    else dates_loop responseActs (j + 1) responseActsDates))
      else Inr responseActsDates)"
  by pat_completeness auto
termination
  by (relation "measure (\<lambda>(acts, j, ds). len acts - j)") auto

text \<open>
  The inner loop of the third (part_000 lines 267-271): every record of the whole list
  whose date equals \<open>date\<close>.
\<close>

function inner_loop ::
  "GetTripActivitiesResponseInnerArray slice \<Rightarrow> time \<Rightarrow> nat
   \<Rightarrow> GetTripActivitiesResponseInnerArray slice
   \<Rightarrow> panic + GetTripActivitiesResponseInnerArray slice" where
  "inner_loop responseActs date y actsInner =
     (if y < len responseActs then
        (case at responseActs y of
           Inl p \<Rightarrow> Inl p
         | Inr r \<Rightarrow>
             if inner_OccursAt r = date then
               inner_loop responseActs date (y + 1) (append_slice actsInner r)
             else inner_loop responseActs date (y + 1) actsInner)
      else Inr actsInner)"
  by pat_completeness auto
termination
  by (relation "measure (\<lambda>(acts, d, y, r). len acts - y)") auto

text \<open>
  The third loop (part_000 lines 265-279): one group per entry of \<open>responseActsDates\<close>.
\<close>

function groups_loop ::
  "GetTripActivitiesResponseInnerArray slice \<Rightarrow> time slice \<Rightarrow> nat
   \<Rightarrow> GetTripActivitiesResponseOuterArray slice
   \<Rightarrow> panic + GetTripActivitiesResponseOuterArray slice" where
  "groups_loop responseActs responseActsDates x responseActsFinal =
     (if x < len responseActsDates then
        (case at responseActsDates x of
           Inl p \<Rightarrow> Inl p
         | Inr date \<Rightarrow>
             (case inner_loop responseActs date 0 None of
                Inl p \<Rightarrow> Inl p
              | Inr actsInner \<Rightarrow>
                  groups_loop responseActs responseActsDates (x + 1)
                    (append_slice responseActsFinal
                       \<lparr>Activities = actsInner, Date = date\<rparr>)))
      else Inr responseActsFinal)"
  by pat_completeness auto
termination
  by (relation "measure (\<lambda>(acts, ds, x, r). len ds - x)") auto

text \<open>
  The body of the handler after the gateway call, in part_000: it has the statement
  \<open>if len(responseActsDates) == 0 { responseActsFinal = []...{} }\<close> (lines 261-263)
  between the second and the third loop.
\<close>

definition aggregate ::
  "API \<Rightarrow> Activity slice \<Rightarrow> panic + GetTripActivitiesResponseOuterArray slice" where
  "aggregate api acts =
     (case project_loop api acts 0 None of
        Inl p \<Rightarrow> Inl p
      | Inr responseActs \<Rightarrow>
          (case dates_loop responseActs 0 None of
             Inl p \<Rightarrow> Inl p
           | Inr responseActsDates \<Rightarrow>
               groups_loop responseActs responseActsDates 0
                 (if len responseActsDates = 0 then Some [] else None)))"

text \<open>
  The same in internal/api/api.go (lines 254-256), which goes from the second loop to
  the third.
\<close>

definition aggregate_api_go ::
  "API \<Rightarrow> Activity slice \<Rightarrow> panic + GetTripActivitiesResponseOuterArray slice" where
  "aggregate_api_go api acts =
     (case project_loop api acts 0 None of
        Inl p \<Rightarrow> Inl p
      | Inr responseActs \<Rightarrow>
          (case dates_loop responseActs 0 None of
             Inl p \<Rightarrow> Inl p
           | Inr responseActsDates \<Rightarrow>
               groups_loop responseActs responseActsDates 0 None))"

definition GetTripsTripIDActivities ::
  "API \<Rightarrow> world \<Rightarrow> request \<Rightarrow> string \<Rightarrow> panic + response \<times> world" where
  "GetTripsTripIDActivities api w r tripID =
     (case uuid_Parse api tripID of
        None \<Rightarrow> Inr (JSON400Response ''invalid uuid'', w)
      | Some id' \<Rightarrow>
          (case GetTripActivities w id' of
             (Inl err, w1) \<Rightarrow>
               if err = ErrNoRows then Inr (JSON400Response ''trip not found'', w1)
               else Inr (JSON400Response ''something went wrong, try again'',
                         logger_Error ''failed to get trip'' w1)
           | (Inr acts, w1) \<Rightarrow>
               (case aggregate api acts of
                  Inl p \<Rightarrow> Inl p
                | Inr responseActsFinal \<Rightarrow>
                    Inr (JSON200Response (GetTripActivitiesResponse responseActsFinal), w1))))"

definition GetTripsTripIDActivities_api_go ::
  "API \<Rightarrow> world \<Rightarrow> request \<Rightarrow> string \<Rightarrow> panic + response \<times> world" where
  "GetTripsTripIDActivities_api_go api w r tripID =
     (case uuid_Parse api tripID of
        None \<Rightarrow> Inr (JSON400Response ''invalid uuid'', w)
      | Some id' \<Rightarrow>
          (case GetTripActivities w id' of
             (Inl err, w1) \<Rightarrow>
               if err = ErrNoRows then Inr (JSON400Response ''trip not found'', w1)
               else Inr (JSON400Response ''something went wrong, try again'',
                         logger_Error ''failed to get trip'' w1)
           | (Inr acts, w1) \<Rightarrow>
               (case aggregate_api_go api acts of
                  Inl p \<Rightarrow> Inl p
                | Inr responseActsFinal \<Rightarrow>
                    Inr (JSON200Response (GetTripActivitiesResponse responseActsFinal), w1))))"

section \<open>The gateway\<close>

text \<open>
  Modelled from the spec: the remaining operations of the Persistence Gateway.
  \<open>getParticipant(id) -> Participant | NotFound\<close> and \<open>getTrip(id) -> Trip | NotFound\<close>
  look the row up by id (\<open>ErrNoRows\<close> when absent); \<open>confirmParticipant(id) -> ok | error\<close>
  sets \<open>is_confirmed\<close> of the participant rows with that id;
  \<open>updateTrip(id, destination, startsAt, endsAt, isConfirmed) -> ok | error\<close> overwrites
  these columns of the trip rows with that id; \<open>createActivity(tripId, title, occursAt) ->
  activityId\<close> adds a row under a fresh id. Each may also fail when the environment
  says so (\<open>faults\<close>), and then changes no table.
\<close>

definition GetParticipant :: "world \<Rightarrow> uuid \<Rightarrow> (store_error + Participant) \<times> world" where
  "GetParticipant w id' =
     (if faults w (Call_GetParticipant id') then Inl ErrOther
      else (case find (\<lambda>p. part_ID p = id') (participants w) of
              None \<Rightarrow> Inl ErrNoRows
            | Some p \<Rightarrow> Inr p),
      called (Call_GetParticipant id') w)"

definition ConfirmParticipant :: "world \<Rightarrow> uuid \<Rightarrow> store_error option \<times> world" where
  "ConfirmParticipant w id' =
     (if faults w (Call_ConfirmParticipant id') then
        (Some ErrOther, called (Call_ConfirmParticipant id') w)
      else
        (None,
         (called (Call_ConfirmParticipant id') w)
           \<lparr>participants :=
              map (\<lambda>p. if part_ID p = id' then p\<lparr>part_IsConfirmed := True\<rparr> else p)
                (participants w)\<rparr>))"

definition GetTrip :: "world \<Rightarrow> uuid \<Rightarrow> (store_error + Trip) \<times> world" where
  "GetTrip w id' =
     (if faults w (Call_GetTrip id') then Inl ErrOther
      else (case find (\<lambda>t. trip_ID t = id') (trips w) of
              None \<Rightarrow> Inl ErrNoRows
            | Some t \<Rightarrow> Inr t),
      called (Call_GetTrip id') w)"

definition UpdateTrip :: "world \<Rightarrow> UpdateTripParams \<Rightarrow> store_error option \<times> world" where
  "UpdateTrip w arg =
     (if faults w (Call_UpdateTrip arg) then (Some ErrOther, called (Call_UpdateTrip arg) w)
      else
        (None,
         (called (Call_UpdateTrip arg) w)
           \<lparr>trips :=
              map (\<lambda>t. if trip_ID t = utp_ID arg then
                          t\<lparr>trip_Destination := utp_Destination arg,
                            trip_EndsAt := utp_EndsAt arg,
                            trip_StartsAt := utp_StartsAt arg,
                            trip_IsConfirmed := utp_IsConfirmed arg\<rparr>
                        else t)
                (trips w)\<rparr>))"

definition CreateActivity :: "world \<Rightarrow> CreateActivityParams \<Rightarrow> (store_error + uuid) \<times> world" where
  "CreateActivity w arg =
     (if faults w (Call_CreateActivity arg) then (Inl ErrOther, called (Call_CreateActivity arg) w)
      else
        (Inr (next_id w),
         (called (Call_CreateActivity arg) w)
           \<lparr>activities :=
              activities w @
                [\<lparr>act_ID = next_id w, act_TripID = cap_TripID arg,
                  act_Title = cap_Title arg, act_OccursAt = cap_OccursAt arg\<rparr>],
            next_id := next_id w + 1\<rparr>))"

text \<open>
  Modelled from the spec: \<open>getParticipants(tripId) -> sequence of Participant\<close>, the
  participant rows of the trip in stored order; it fails when the environment says so.
\<close>

definition GetParticipants :: "world \<Rightarrow> uuid \<Rightarrow> (store_error + Participant slice) \<times> world" where
  "GetParticipants w tripID =
     (if faults w (Call_GetParticipants tripID) then Inl ErrOther
      else Inr (slice_of (filter (\<lambda>p. part_TripID p = tripID) (participants w))),
      called (Call_GetParticipants tripID) w)"

text \<open>
  Modelled from the spec: the unit of work. \<open>beginUnitOfWork() -> transactional handle\<close>;
  \<open>invite(handle, tripId, emails) -> ok | error\<close> stages one unconfirmed participant row
  per e-mail; \<open>commit(handle)\<close> makes the staged rows durable, or fails and adds none;
  \<open>rollback(handle)\<close> drops the staged rows. Commit and rollback close the transaction,
  and on a closed transaction both only report \<open>ErrTxClosed\<close>.
\<close>

fun invite_rows :: "uuid \<Rightarrow> InviteParticipantsToTripParams list \<Rightarrow> Participant list" where
  "invite_rows n [] = []"
| "invite_rows n (p # ps) =
     \<lparr>part_ID = n, part_TripID = ipp_TripID p, part_Email = ipp_Email p,
      part_IsConfirmed = False\<rparr> # invite_rows (n + 1) ps"

definition pool_Begin :: "world \<Rightarrow> store_error option \<times> world" where
  "pool_Begin w =
     (if faults w Call_Begin then (Some ErrOther, called Call_Begin w)
      else (None, (called Call_Begin w)\<lparr>tx_open := True, tx_pending := []\<rparr>))"

definition InviteParticipantsToTrip ::
  "world \<Rightarrow> InviteParticipantsToTripParams list \<Rightarrow> (store_error + nat) \<times> world" where
  "InviteParticipantsToTrip w arg =
     (if \<not> tx_open w then (Inl ErrTxClosed, called (Call_InviteParticipantsToTrip arg) w)
      else if faults w (Call_InviteParticipantsToTrip arg) then
        (Inl ErrOther, called (Call_InviteParticipantsToTrip arg) w)
      else
        (Inr (length arg),
         (called (Call_InviteParticipantsToTrip arg) w)
           \<lparr>tx_pending := tx_pending w @ invite_rows (next_id w) arg,
            next_id := next_id w + of_nat (length arg)\<rparr>))"

definition tx_Commit :: "world \<Rightarrow> store_error option \<times> world" where
  "tx_Commit w =
     (if \<not> tx_open w then (Some ErrTxClosed, called Call_Commit w)
      else if faults w Call_Commit then
        (Some ErrOther, (called Call_Commit w)\<lparr>tx_open := False, tx_pending := []\<rparr>)
      else
        (None,
         (called Call_Commit w)
           \<lparr>participants := participants w @ tx_pending w,
            tx_open := False, tx_pending := []\<rparr>))"

definition tx_Rollback :: "world \<Rightarrow> store_error option \<times> world" where
  "tx_Rollback w =
     (if \<not> tx_open w then (Some ErrTxClosed, called Call_Rollback w)
      else
        (if faults w Call_Rollback then Some ErrOther else None,
         (called Call_Rollback w)\<lparr>tx_open := False, tx_pending := []\<rparr>))"

section \<open>The other handlers\<close>

text \<open>PATCH /participants/{participantId}/confirm (part_000 lines 62-97).\<close>

definition PatchParticipantsParticipantIDConfirm ::
  "API \<Rightarrow> world \<Rightarrow> request \<Rightarrow> string \<Rightarrow> response \<times> world" where
  "PatchParticipantsParticipantIDConfirm api w r participantID =
     (case uuid_Parse api participantID of
        None \<Rightarrow> (JSON400Response ''invalid uuid'', w)
      | Some id' \<Rightarrow>
          (case GetParticipant w id' of
             (Inl err, w1) \<Rightarrow>
               if err = ErrNoRows then (JSON400Response ''participant not found'', w1)
               else (JSON400Response ''something went wrong, try again'',
                     logger_Error ''failed to get participant'' w1)
           | (Inr participant, w1) \<Rightarrow>
               if part_IsConfirmed participant then
                 (JSON400Response ''participant already confirmed'', w1)
               else
                 (case ConfirmParticipant w1 id' of
                    (Some err, w2) \<Rightarrow>
                      (JSON400Response ''something went wrong, try again'',
                       logger_Error ''failed to confim participant'' w2)
                  | (None, w2) \<Rightarrow> (JSON204Response Nil_body, w2))))"

text \<open>
  PUT /trips/{tripId} (part_000 lines 166-212). The error of the JSON decoder builds a response that is not
  returned, so the handler goes on to the validator with whatever the decoder left in
  \<open>body\<close>.
\<close>

definition PutTripsTripID :: "API \<Rightarrow> world \<Rightarrow> request \<Rightarrow> string \<Rightarrow> response \<times> world" where
  "PutTripsTripID api w r tripID =
     (case uuid_Parse api tripID of
        None \<Rightarrow> (JSON400Response ''invalid uuid'', w)
      | Some id' \<Rightarrow>
          (case GetTrip w id' of
             (Inl err, w1) \<Rightarrow>
               if err = ErrNoRows then (JSON400Response ''trip not found'', w1)
               else (JSON400Response ''something went wrong, try again'',
                     logger_Error ''failed to get trip'' w1)
           | (Inr trip, w1) \<Rightarrow>
               (case Decode_UpdateTripRequest api (req_Body r) of
                  (errJson, body) \<Rightarrow>
                    (case validator_UpdateTripRequest api body of
                       Some err \<Rightarrow> (JSON400Response (''invalid input: '' @ err), w1)
                     | None \<Rightarrow>
                         (case UpdateTrip w1
                                 \<lparr>utp_Destination = Destination body,
                                  utp_EndsAt = \<lparr>Time = EndsAt body, Valid = True\<rparr>,
                                  utp_StartsAt = \<lparr>Time = StartsAt body, Valid = True\<rparr>,
                                  utp_IsConfirmed = trip_IsConfirmed trip,
                                  utp_ID = trip_ID trip\<rparr> of
                            (Some errExec, w2) \<Rightarrow>
                              (JSON400Response ''failed to update trip, try again'', w2)
                          | (None, w2) \<Rightarrow>
                              (JSON204Response (UpdateTripRequest_body body), w2))))))"

text \<open>
  POST /trips/{tripId}/activities (part_000 lines 286-318). \<open>var body spec.CreateActivityRequest\<close> is the zero
  value, and nothing is decoded into it.
\<close>

definition PostTripsTripIDActivities ::
  "API \<Rightarrow> world \<Rightarrow> request \<Rightarrow> string \<Rightarrow> response \<times> world" where
  "PostTripsTripIDActivities api w r tripID =
     (case uuid_Parse api tripID of
        None \<Rightarrow> (JSON400Response ''invalid uuid'', w)
      | Some tripUUID \<Rightarrow>
          (case GetTrip w tripUUID of
             (Inl err, w1) \<Rightarrow>
               if err = ErrNoRows then (JSON400Response ''trip not found'', w1)
               else (JSON400Response ''something went wrong, try again'',
                     logger_Error ''failed to get trip'' w1)
           | (Inr trip, w1) \<Rightarrow>
               (let body = \<lparr>OccursAt = zero_time, Title = []\<rparr> in
                case CreateActivity w1
                       \<lparr>cap_TripID = tripUUID, cap_Title = Title body,
                        cap_OccursAt = \<lparr>Time = OccursAt body, Valid = True\<rparr>\<rparr> of
                  (Inl err, w2) \<Rightarrow>
                    (JSON400Response ''failed to create activity, try again'', w2)
                | (Inr id', w2) \<Rightarrow>
                    (JSON201Response (CreateActivityResponse (uuid_String api id')), w2))))"

text \<open>
  GET /trips/{tripId}/confirm (part_000 lines 322-361). The gateway call is \<open>ConfirmParticipant\<close>, with the
  trip's id. \<open>go func() { ... }()\<close> starts a goroutine and does not wait for it.
\<close>

definition GetTripsTripIDConfirm :: "API \<Rightarrow> world \<Rightarrow> request \<Rightarrow> string \<Rightarrow> response \<times> world" where
  "GetTripsTripIDConfirm api w r tripID =
     (case uuid_Parse api tripID of
        None \<Rightarrow> (JSON400Response ''invalid uuid'', w)
      | Some tripUUID \<Rightarrow>
          (case GetTrip w tripUUID of
             (Inl errTrip, w1) \<Rightarrow>
               if errTrip = ErrNoRows then (JSON400Response ''trip not found'', w1)
               else (JSON400Response ''something went wrong, try again'',
                     logger_Error ''failed to get trip'' w1)
           | (Inr trip, w1) \<Rightarrow>
               (case ConfirmParticipant w1 tripUUID of
                  (Some err, w2) \<Rightarrow>
                    (JSON400Response ''failed to confirm participant, try again'', w2)
                | (None, w2) \<Rightarrow>
                    (JSON204Response Nil_body,
                     w2\<lparr>goroutines := goroutines w2 @ [Go_SendEmailInvitations tripUUID]\<rparr>))))"

text \<open>
  The mailer behind the \<open>mailer\<close> interface: \<open>Mailpit.SendEmailInvitations\<close>
  (src/internal/mailer/mailpit/mailpit.go lines 65-108). It reads the trip and its
  participants from the gateway, sets the sender, calls \<open>msg.To\<close> once per
  participant (lines 83-87), sets subject and body, creates the client and sends. Every
  failing step returns its error wrapped.
\<close>

fun To_loop :: "API \<Rightarrow> message \<Rightarrow> Participant list \<Rightarrow> string + message" where
  "To_loop api msg [] = Inr msg"
| "To_loop api msg (part # parts) =
     (case mail_To api msg (part_Email part) of
        Inl err \<Rightarrow> Inl err
      | Inr msg' \<Rightarrow> To_loop api msg' parts)"

definition SendEmailInvitations :: "API \<Rightarrow> world \<Rightarrow> uuid \<Rightarrow> mailer_error option \<times> world" where
  "SendEmailInvitations api w trupID =
     (case GetTrip w trupID of
        (Inl err, w1) \<Rightarrow>
          (Some (Errorf ''mailpit: failed to get trip for SendEmailInvitations''
                   (Store_cause err)), w1)
      | (Inr trip, w1) \<Rightarrow>
          (case GetParticipants w1 trupID of
             (Inl err, w2) \<Rightarrow>
               (Some (Errorf ''mailpit: failed to get trip for SendEmailInvitations''
                        (Store_cause err)), w2)
           | (Inr participants', w2) \<Rightarrow>
               (case mail_From api NewMsg ''mailpit@journey.com'' of
                  Inl err \<Rightarrow>
                    (Some (Errorf ''mailpit: failed to set 'From' in email SendEmailInvitations''
                             (Lib_cause err)), w2)
                | Inr msg1 \<Rightarrow>
                    (case To_loop api msg1 (elems participants') of
                       Inl err \<Rightarrow>
                         (Some (Errorf ''mailpit: failed to set 'to' in email SendEmailInvitations''
                                  (Lib_cause err)), w2)
                     | Inr msg2 \<Rightarrow>
                         (let msg3 = msg2\<lparr>msg_Subject := ''Confirme sua viagem'',
                                          msg_Body := Some (trip_Destination trip,
                                                           Time (trip_StartsAt trip))\<rparr> in
                          case mail_NewClient api of
                            Some err \<Rightarrow>
                              (Some (Errorf
                                 ''mailpit: failed create email client SendEmailInvitations''
                                 (Lib_cause err)), w2)
                          | None \<Rightarrow>
                              (case mail_DialAndSend api msg3 of
                                 Some err \<Rightarrow>
                                   (Some (Errorf
                                      ''mailpit: failed send email client SendEmailInvitations''
                                      (Lib_cause err)), w2)
                               | None \<Rightarrow> (None, w2\<lparr>sent := sent w2 @ [msg3]\<rparr>)))))))"

text \<open>
  The goroutine (part_000 lines 350-358), when the scheduler runs it, in the world of
  that moment: the mailer is called, and its error goes to the logger.
\<close>

definition run_goroutine :: "API \<Rightarrow> goroutine \<Rightarrow> world \<Rightarrow> world" where
  "run_goroutine api g w =
     (case g of
        Go_SendEmailInvitations tripUUID \<Rightarrow>
          (case SendEmailInvitations api w tripUUID of
             (Some err, w1) \<Rightarrow> logger_Error ''failed to send email on GetTripsTripIDConfirm'' w1
           | (None, w1) \<Rightarrow> w1))"

text \<open>
  POST /trips/{tripId}/invites (part_000 lines 365-426). After a successful
  \<open>pool.Begin\<close> the rollback is deferred: it runs when the handler returns, on every
  path. \<open>store.WithTx(tx)\<close> only binds the queries to the transaction.
\<close>

definition PostTripsTripIDInvites :: "API \<Rightarrow> world \<Rightarrow> request \<Rightarrow> string \<Rightarrow> response \<times> world" where
  "PostTripsTripIDInvites api w r tripID =
     (case uuid_Parse api tripID of
        None \<Rightarrow> (JSON400Response ''invalid uuid'', w)
      | Some id' \<Rightarrow>
          (case GetTrip w id' of
             (Inl errTrip, w1) \<Rightarrow>
               if errTrip = ErrNoRows then (JSON400Response ''trip not found'', w1)
               else (JSON400Response ''something went wrong, try again'',
                     logger_Error ''failed to get trip'' w1)
           | (Inr trip, w1) \<Rightarrow>
               (case Decode_InvitesBody api (req_Body r) of
                  (errJson, body) \<Rightarrow>
                    (case validator_InvitesBody api body of
                       Some errVal \<Rightarrow> (JSON400Response (''invalid input: '' @ errVal), w1)
                     | None \<Rightarrow>
                         (case pool_Begin w1 of
                            (Some errTx, w2) \<Rightarrow>
                              (JSON400Response
                                 ''pgstore: failed to begin tx for PostTripsTripIDInvites'', w2)
                          | (None, w2) \<Rightarrow>
                              (case
                                 (case InviteParticipantsToTrip w2
                                         [\<lparr>ipp_TripID = id', ipp_Email = Email body\<rparr>] of
                                    (Inl errExe, w3) \<Rightarrow>
                                      (JSON400Response
                                         ''pgstore: failed to insert participants for PostTripsTripIDInvites'',
                                       w3)
                                  | (Inr n, w3) \<Rightarrow>
                                      (case tx_Commit w3 of
                                         (Some errCom, w4) \<Rightarrow>
                                           (JSON400Response
                                              ''pgstore: failed to commit tx for PostTripsTripIDInvites'',
                                            w4)
                                       | (None, w4) \<Rightarrow> (JSON201Response Nil_body, w4)))
                               of (resp, w5) \<Rightarrow> (resp, snd (tx_Rollback w5))))))))"

section \<open>Reading the call trace\<close>

fun is_UpdateTrip :: "store_call \<Rightarrow> bool" where
  "is_UpdateTrip (Call_UpdateTrip arg) = True"
| "is_UpdateTrip c = False"

section \<open>The date-range rule of the validator\<close>

text \<open>
  Modelled from the spec: the validation rules of \<open>spec.UpdateTripRequest\<close> are struct
  tags in package spec, which is not among the sources. The spec lists a malformed date
  range among the validation failures and says that an update with endsAt earlier than
  startsAt is rejected at the validation boundary; this is a validator with that rule
  and no other.
\<close>

definition validate_date_range :: "UpdateTripRequest \<Rightarrow> string option" where
  "validate_date_range body =
     (if Before (EndsAt body) (StartsAt body) then Some ''EndsAt is before StartsAt'' else None)"

section \<open>A small world to run the handlers in\<close>

definition trip1 :: string where
  "trip1 = ''00000000-0000-0000-0000-000000000001''"

definition participant7 :: string where
  "participant7 = ''00000000-0000-0000-0000-000000000007''"

definition dateA :: time where
  "dateA = \<lparr>instant = 63855907200000000000, loc = None\<rparr>"

definition dateB :: time where
  "dateB = \<lparr>instant = 63855993600000000000, loc = None\<rparr>"

definition example_api :: API where
  "example_api =
     \<lparr>uuid_Parse = (\<lambda>s. if s = trip1 then Some 1 else if s = participant7 then Some 7 else None),
      uuid_String = (\<lambda>u. if u = 10 then ''x'' else if u = 11 then ''y'' else ''z''),
      Decode_UpdateTripRequest =
        (\<lambda>s. (None, \<lparr>Destination = s, EndsAt = dateA, StartsAt = dateB\<rparr>)),
      Decode_InvitesBody = (\<lambda>s. (None, \<lparr>Email = s\<rparr>)),
      validator_UpdateTripRequest = (\<lambda>b. None),
      validator_InvitesBody = (\<lambda>b. None),
      mail_From = (\<lambda>m a. Inr (m\<lparr>msg_addresses := msg_addresses m @ [(''From'', a)]\<rparr>)),
      mail_To = (\<lambda>m a. Inr (m\<lparr>msg_addresses := msg_addresses m @ [(''To'', a)]\<rparr>)),
      mail_NewClient = None,
      mail_DialAndSend = (\<lambda>m. None)\<rparr>"

definition smtp_down :: "message \<Rightarrow> string option" where
  "smtp_down m = Some ''dial tcp 127.0.0.1:1025: connect: connection refused''"

definition example_trip :: Trip where
  "example_trip =
     \<lparr>trip_ID = 1, trip_Destination = ''Lisboa'', trip_OwnerEmail = ''owner@journey.com'',
      trip_OwnerName = ''Owner'', trip_IsConfirmed = False,
      trip_StartsAt = \<lparr>Time = dateA, Valid = True\<rparr>,
      trip_EndsAt = \<lparr>Time = dateB, Valid = True\<rparr>\<rparr>"

definition example_participant :: Participant where
  "example_participant =
     \<lparr>part_ID = 7, part_TripID = 1, part_Email = ''guest@journey.com'',
      part_IsConfirmed = True\<rparr>"

definition activity :: "uuid \<Rightarrow> time \<Rightarrow> string \<Rightarrow> Activity" where
  "activity i t s =
     \<lparr>act_ID = i, act_TripID = 1, act_Title = s, act_OccursAt = \<lparr>Time = t, Valid = True\<rparr>\<rparr>"

definition example_world :: "Activity list \<Rightarrow> (store_call \<Rightarrow> bool) \<Rightarrow> world" where
  "example_world acts f =
     \<lparr>trips = [example_trip], participants = [example_participant], activities = acts,
      next_id = 100, tx_open = False, tx_pending = [], faults = f, calls = [], logs = [],
      goroutines = [], sent = []\<rparr>"

definition no_fault :: "store_call \<Rightarrow> bool" where
  "no_fault c = False"

definition commit_fails :: "store_call \<Rightarrow> bool" where
  "commit_fails c = (c = Call_Commit)"

definition example_request :: request where
  "example_request = \<lparr>req_Body = ''guest2@journey.com''\<rparr>"

section \<open>Facts used throughout\<close>

declare project_loop.simps [simp del] dates_loop.simps [simp del]
  inner_loop.simps [simp del] groups_loop.simps [simp del]

lemmas loop_simps = project_loop.simps dates_loop.simps inner_loop.simps groups_loop.simps

lemmas slice_defs = at_def len_def elems_def append_slice_def slice_of_def

lemmas example_defs = example_api_def example_world_def example_trip_def
  example_participant_def activity_def dateA_def dateB_def trip1_def participant7_def
  no_fault_def example_request_def

lemmas tx_defs = pool_Begin_def InviteParticipantsToTrip_def tx_Commit_def tx_Rollback_def

lemma called_simps [simp]:
  "trips (called c w) = trips w" "participants (called c w) = participants w"
  "activities (called c w) = activities w" "next_id (called c w) = next_id w"
  "tx_open (called c w) = tx_open w" "tx_pending (called c w) = tx_pending w"
  "faults (called c w) = faults w" "calls (called c w) = calls w @ [c]"
  "logs (called c w) = logs w" "goroutines (called c w) = goroutines w"
  "sent (called c w) = sent w"
  by (simp_all add: called_def)

lemma logger_Error_simps [simp]:
  "trips (logger_Error m w) = trips w" "participants (logger_Error m w) = participants w"
  "activities (logger_Error m w) = activities w" "next_id (logger_Error m w) = next_id w"
  "tx_open (logger_Error m w) = tx_open w" "tx_pending (logger_Error m w) = tx_pending w"
  "faults (logger_Error m w) = faults w" "calls (logger_Error m w) = calls w"
  "logs (logger_Error m w) = logs w @ [m]" "goroutines (logger_Error m w) = goroutines w"
  "sent (logger_Error m w) = sent w"
  by (simp_all add: logger_Error_def)

lemma example_world_simps [simp]:
  "trips (example_world acts f) = [example_trip]"
  "participants (example_world acts f) = [example_participant]"
  "activities (example_world acts f) = acts"
  "next_id (example_world acts f) = 100"
  "tx_open (example_world acts f) = False"
  "tx_pending (example_world acts f) = []"
  "faults (example_world acts f) = f"
  "calls (example_world acts f) = []"
  "logs (example_world acts f) = []"
  "goroutines (example_world acts f) = []"
  "sent (example_world acts f) = []"
  by (simp_all add: example_world_def)

lemma example_api_simps [simp]:
  "uuid_Parse example_api trip1 = Some 1"
  "uuid_Parse example_api participant7 = Some 7"
  "Decode_UpdateTripRequest example_api s =
     (None, \<lparr>Destination = s, EndsAt = dateA, StartsAt = dateB\<rparr>)"
  "Decode_InvitesBody example_api s = (None, \<lparr>Email = s\<rparr>)"
  "validator_UpdateTripRequest example_api b = None"
  "validator_InvitesBody example_api c = None"
  by (simp_all add: example_api_def trip1_def participant7_def)

lemma example_mail_simps [simp]:
  "mail_From example_api m a = Inr (m\<lparr>msg_addresses := msg_addresses m @ [(''From'', a)]\<rparr>)"
  "mail_To example_api m a = Inr (m\<lparr>msg_addresses := msg_addresses m @ [(''To'', a)]\<rparr>)"
  "mail_NewClient example_api = None"
  "mail_DialAndSend example_api m = None"
  by (simp_all add: example_api_def)

lemma example_rows_simps [simp]:
  "trip_ID example_trip = 1" "trip_IsConfirmed example_trip = False"
  "part_ID example_participant = 7" "part_IsConfirmed example_participant = True"
  by (simp_all add: example_trip_def example_participant_def)

section \<open>The itinerary aggregation\<close>

text \<open>
  Claim C2. For the activities (A, x), (A, y), (B, z) the claim expects the two groups
  A: [x, y] and B: [z]. The handler does not return: at \<open>j = 1\<close> the dates are equal and
  nothing is appended, so \<open>responseActsDates\<close> still has length 1 when \<open>j = 2\<close> reads
  \<open>responseActsDates[1]\<close>, and the handler panics with index 1 out of range for length 1.
\<close>

theorem GetTripsTripIDActivities_AAB_panics:
  "GetTripsTripIDActivities example_api
     (example_world
        [activity 10 dateA ''x'', activity 11 dateA ''y'', activity 12 dateB ''z''] no_fault)
     example_request trip1 = Inl (IndexOutOfRange 1 1)"
  by (simp add: example_defs GetTripsTripIDActivities_def GetTripActivities_def aggregate_def
      slice_defs loop_simps)

text \<open>
  Claim C3, as stated: for the activities (A, x), (B, y), (A, z) the groups would be
  A: [x], B: [y], A: [z], every record in exactly one group. The handler returns another
  response.
\<close>

theorem GetTripsTripIDActivities_ABA_not_disjoint_groups:
  "\<not> (\<exists>w'. GetTripsTripIDActivities example_api
          (example_world
             [activity 10 dateA ''x'', activity 11 dateB ''y'', activity 12 dateA ''z''] no_fault)
          example_request trip1 =
        Inr (JSON200Response (GetTripActivitiesResponse (Some
               [\<lparr>Activities = Some [\<lparr>inner_ID = ''x'', inner_OccursAt = dateA, inner_Title = ''x''\<rparr>],
                 Date = dateA\<rparr>,
                \<lparr>Activities = Some [\<lparr>inner_ID = ''y'', inner_OccursAt = dateB, inner_Title = ''y''\<rparr>],
                 Date = dateB\<rparr>,
                \<lparr>Activities = Some [\<lparr>inner_ID = ''z'', inner_OccursAt = dateA, inner_Title = ''z''\<rparr>],
                 Date = dateA\<rparr>])), w'))"
  by (simp add: example_defs GetTripsTripIDActivities_def GetTripActivities_def aggregate_def
      slice_defs loop_simps)

text \<open>
  Claim C3, amended. When the gateway returns three activities with the dates A, B, A
  (A and B different), the handler returns three groups in the order A, B, A; the group
  of B holds the second record only, and both groups of A hold the first and the third
  record in input order, because the inner loop collects every record of the whole list
  whose date equals the group's date. So x and z each appear in two groups.
\<close>

theorem GetTripsTripIDActivities_ABA_groups:
  assumes "uuid_Parse api tripID = Some u"
    and "\<not> faults w (Call_GetTripActivities u)"
    and "filter (\<lambda>a. act_TripID a = u) (activities w) = [a1, a2, a3]"
    and "Time (act_OccursAt a1) = A" and "Time (act_OccursAt a2) = B"
    and "Time (act_OccursAt a3) = A" and "A \<noteq> B"
    and "x = \<lparr>inner_ID = uuid_String api (act_ID a1), inner_OccursAt = A,
               inner_Title = act_Title a1\<rparr>"
    and "y = \<lparr>inner_ID = uuid_String api (act_ID a2), inner_OccursAt = B,
               inner_Title = act_Title a2\<rparr>"
    and "z = \<lparr>inner_ID = uuid_String api (act_ID a3), inner_OccursAt = A,
               inner_Title = act_Title a3\<rparr>"
  shows "GetTripsTripIDActivities api w r tripID =
     Inr (JSON200Response (GetTripActivitiesResponse (Some
            [\<lparr>Activities = Some [x, z], Date = A\<rparr>,
             \<lparr>Activities = Some [y], Date = B\<rparr>,
             \<lparr>Activities = Some [x, z], Date = A\<rparr>])),
          called (Call_GetTripActivities u) w)"
  using assms
  by (simp add: GetTripsTripIDActivities_def GetTripActivities_def aggregate_def slice_defs
      loop_simps)

theorem GetTripsTripIDActivities_ABA_groups_witness:
  "GetTripsTripIDActivities example_api
     (example_world
        [activity 10 dateA ''x'', activity 11 dateB ''y'', activity 12 dateA ''z''] no_fault)
     example_request trip1 =
     Inr (JSON200Response (GetTripActivitiesResponse (Some
            [\<lparr>Activities = Some [\<lparr>inner_ID = ''x'', inner_OccursAt = dateA, inner_Title = ''x''\<rparr>,
                                  \<lparr>inner_ID = ''z'', inner_OccursAt = dateA, inner_Title = ''z''\<rparr>],
              Date = dateA\<rparr>,
             \<lparr>Activities = Some [\<lparr>inner_ID = ''y'', inner_OccursAt = dateB, inner_Title = ''y''\<rparr>],
              Date = dateB\<rparr>,
             \<lparr>Activities = Some [\<lparr>inner_ID = ''x'', inner_OccursAt = dateA, inner_Title = ''x''\<rparr>,
                                  \<lparr>inner_ID = ''z'', inner_OccursAt = dateA, inner_Title = ''z''\<rparr>],
              Date = dateA\<rparr>])),
          called (Call_GetTripActivities 1)
            (example_world
               [activity 10 dateA ''x'', activity 11 dateB ''y'', activity 12 dateA ''z''] no_fault))"
  using GetTripsTripIDActivities_ABA_groups [of example_api trip1 1
      "example_world
         [activity 10 dateA ''x'', activity 11 dateB ''y'', activity 12 dateA ''z''] no_fault"
      "activity 10 dateA ''x''" "activity 11 dateB ''y''" "activity 12 dateA ''z''" dateA dateB
      "\<lparr>inner_ID = ''x'', inner_OccursAt = dateA, inner_Title = ''x''\<rparr>"
      "\<lparr>inner_ID = ''y'', inner_OccursAt = dateB, inner_Title = ''y''\<rparr>"
      "\<lparr>inner_ID = ''z'', inner_OccursAt = dateA, inner_Title = ''z''\<rparr>" example_request]
  by (simp add: example_defs)

text \<open>
  Claim C5. The scan of the dates would index \<open>responseActsDates\<close> in range on every
  list. On three records of one date it does not: the record at \<open>j = 1\<close> adds no date,
  and \<open>j = 2\<close> reads \<open>responseActsDates[1]\<close> of a slice of length 1.
\<close>

theorem dates_loop_index_out_of_range:
  "dates_loop
     (Some [\<lparr>inner_ID = ''x'', inner_OccursAt = dateA, inner_Title = ''x''\<rparr>,
            \<lparr>inner_ID = ''y'', inner_OccursAt = dateA, inner_Title = ''y''\<rparr>,
            \<lparr>inner_ID = ''z'', inner_OccursAt = dateA, inner_Title = ''z''\<rparr>]) 0 None =
   Inl (IndexOutOfRange 1 1)"
  by (simp add: slice_defs loop_simps)

subsection \<open>When the scan panics\<close>

text \<open>
  From \<open>j > 0\<close> on, with one date collected per record so far, the scan panics exactly
  when one of the records still to come, other than the last of the list, has the date
  of its predecessor.
\<close>

lemma dates_loop_run:
  assumes "0 < j" and "j \<le> length rs"
  shows "(\<exists>p. dates_loop (Some rs) j (Some (map inner_OccursAt (take j rs))) = Inl p) \<longleftrightarrow>
         (\<exists>i. j \<le> Suc i \<and> Suc (Suc i) < length rs \<and>
              inner_OccursAt (rs ! i) = inner_OccursAt (rs ! Suc i))"
  using assms
proof (induction "length rs - j" arbitrary: j)
  case 0
  then have "j = length rs" by simp
  then show ?case
    by (subst dates_loop.simps) (auto simp: len_def elems_def)
next
  case (Suc k)
  then have lt: "j < length rs" by simp
  obtain j' where j': "j = Suc j'" using Suc.prems(1) by (cases j) auto
  have prev: "at (Some (map inner_OccursAt (take j rs))) (j - 1) = Inr (inner_OccursAt (rs ! j'))"
    using lt j' by (simp add: at_def len_def elems_def)
  have cur: "at (Some rs) j = Inr (rs ! j)"
    using lt by (simp add: at_def len_def elems_def)
  show ?case
  proof (cases "inner_OccursAt (rs ! j') = inner_OccursAt (rs ! j)")
    case False
    have step: "dates_loop (Some rs) j (Some (map inner_OccursAt (take j rs))) =
        dates_loop (Some rs) (Suc j) (Some (map inner_OccursAt (take (Suc j) rs)))"
      using lt j' False prev cur
      by (subst dates_loop.simps)
         (simp add: len_def elems_def append_slice_def take_Suc_conv_app_nth)
    have IH: "(\<exists>p. dates_loop (Some rs) (Suc j) (Some (map inner_OccursAt (take (Suc j) rs))) = Inl p) \<longleftrightarrow>
         (\<exists>i. Suc j \<le> Suc i \<and> Suc (Suc i) < length rs \<and>
              inner_OccursAt (rs ! i) = inner_OccursAt (rs ! Suc i))"
      using Suc.hyps(1)[of "Suc j"] Suc.hyps(2) lt by simp
    have "(\<exists>i. j \<le> Suc i \<and> Suc (Suc i) < length rs \<and>
              inner_OccursAt (rs ! i) = inner_OccursAt (rs ! Suc i)) \<longleftrightarrow>
          (\<exists>i. Suc j \<le> Suc i \<and> Suc (Suc i) < length rs \<and>
              inner_OccursAt (rs ! i) = inner_OccursAt (rs ! Suc i))"
    proof
      assume "\<exists>i. j \<le> Suc i \<and> Suc (Suc i) < length rs \<and>
              inner_OccursAt (rs ! i) = inner_OccursAt (rs ! Suc i)"
      then obtain i where i: "j \<le> Suc i" "Suc (Suc i) < length rs"
        "inner_OccursAt (rs ! i) = inner_OccursAt (rs ! Suc i)" by blast
      have "i \<noteq> j'" using i(3) False j' by auto
      then have "Suc j \<le> Suc i" using i(1) j' by simp
      then show "\<exists>i. Suc j \<le> Suc i \<and> Suc (Suc i) < length rs \<and>
              inner_OccursAt (rs ! i) = inner_OccursAt (rs ! Suc i)" using i by blast
    next
      assume "\<exists>i. Suc j \<le> Suc i \<and> Suc (Suc i) < length rs \<and>
              inner_OccursAt (rs ! i) = inner_OccursAt (rs ! Suc i)"
      then obtain i where i: "Suc j \<le> Suc i" "Suc (Suc i) < length rs"
        "inner_OccursAt (rs ! i) = inner_OccursAt (rs ! Suc i)" by blast
      then have "j \<le> Suc i" by simp
      with i show "\<exists>i. j \<le> Suc i \<and> Suc (Suc i) < length rs \<and>
              inner_OccursAt (rs ! i) = inner_OccursAt (rs ! Suc i)" by blast
    qed
    with step IH show ?thesis by simp
  next
    case True
    have step: "dates_loop (Some rs) j (Some (map inner_OccursAt (take j rs))) =
        dates_loop (Some rs) (Suc j) (Some (map inner_OccursAt (take j rs)))"
      using lt j' True prev cur
      by (subst dates_loop.simps) (simp add: len_def elems_def)
    show ?thesis
    proof (cases "Suc j < length rs")
      case True2: True
      have "dates_loop (Some rs) (Suc j) (Some (map inner_OccursAt (take j rs))) =
          Inl (IndexOutOfRange j j)"
        using True2 lt
        by (subst dates_loop.simps) (simp add: at_def len_def elems_def)
      moreover have "\<exists>i. j \<le> Suc i \<and> Suc (Suc i) < length rs \<and>
              inner_OccursAt (rs ! i) = inner_OccursAt (rs ! Suc i)"
        using True True2 j' by (intro exI[of _ j']) simp
      ultimately show ?thesis using step by simp
    next
      case False
      have "dates_loop (Some rs) (Suc j) (Some (map inner_OccursAt (take j rs))) =
          Inr (Some (map inner_OccursAt (take j rs)))"
        using False by (subst dates_loop.simps) (simp add: len_def elems_def)
      moreover have "\<not> (\<exists>i. j \<le> Suc i \<and> Suc (Suc i) < length rs \<and>
              inner_OccursAt (rs ! i) = inner_OccursAt (rs ! Suc i))"
        using False by auto
      ultimately show ?thesis using step by simp
    qed
  qed
qed

text \<open>
  The scan as the handler starts it: it panics exactly when a record other than the last
  has the date of the record before it.
\<close>

lemma dates_loop_panics_iff:
  "(\<exists>p. dates_loop (Some rs) 0 None = Inl p) \<longleftrightarrow>
   (\<exists>i. Suc (Suc i) < length rs \<and> inner_OccursAt (rs ! i) = inner_OccursAt (rs ! Suc i))"
proof (cases rs)
  case Nil
  then show ?thesis by (subst dates_loop.simps) (simp add: len_def elems_def)
next
  case (Cons r rs')
  have "dates_loop (Some rs) 0 None =
      dates_loop (Some rs) (Suc 0) (Some (map inner_OccursAt (take (Suc 0) rs)))"
    using Cons by (subst dates_loop.simps) (simp add: at_def len_def elems_def append_slice_def)
  moreover have "(\<exists>p. dates_loop (Some rs) (Suc 0) (Some (map inner_OccursAt (take (Suc 0) rs))) = Inl p) \<longleftrightarrow>
         (\<exists>i. Suc 0 \<le> Suc i \<and> Suc (Suc i) < length rs \<and>
              inner_OccursAt (rs ! i) = inner_OccursAt (rs ! Suc i))"
    using Cons by (intro dates_loop_run) simp_all
  ultimately show ?thesis by simp
qed

text \<open>
  The first loop always returns, with one response record per activity; the third loop
  and its inner loop always return. So the handler's aggregation panics exactly when the
  scan does.
\<close>

lemma project_loop_run:
  assumes "i \<le> length as" and "0 < i"
  shows "project_loop api (Some as) i
           (Some (map (\<lambda>a. \<lparr>inner_ID = uuid_String api (act_ID a),
                              inner_OccursAt = Time (act_OccursAt a),
                              inner_Title = act_Title a\<rparr>) (take i as))) =
         Inr (Some (map (\<lambda>a. \<lparr>inner_ID = uuid_String api (act_ID a),
                                inner_OccursAt = Time (act_OccursAt a),
                                inner_Title = act_Title a\<rparr>) as))"
  using assms
proof (induction "length as - i" arbitrary: i)
  case 0
  then show ?case by (subst project_loop.simps) (simp add: len_def elems_def)
next
  case (Suc k)
  then have lt: "i < length as" by simp
  have "project_loop api (Some as) i
           (Some (map (\<lambda>a. \<lparr>inner_ID = uuid_String api (act_ID a),
                              inner_OccursAt = Time (act_OccursAt a),
                              inner_Title = act_Title a\<rparr>) (take i as))) =
        project_loop api (Some as) (Suc i)
           (Some (map (\<lambda>a. \<lparr>inner_ID = uuid_String api (act_ID a),
                              inner_OccursAt = Time (act_OccursAt a),
                              inner_Title = act_Title a\<rparr>) (take (Suc i) as)))"
    using lt
    by (subst project_loop.simps)
       (simp add: at_def len_def elems_def append_slice_def take_Suc_conv_app_nth)
  also have "\<dots> = Inr (Some (map (\<lambda>a. \<lparr>inner_ID = uuid_String api (act_ID a),
                                inner_OccursAt = Time (act_OccursAt a),
                                inner_Title = act_Title a\<rparr>) as))"
    using Suc.hyps(1)[of "Suc i"] Suc.hyps(2) lt by simp
  finally show ?case .
qed

lemma project_loop_result:
  "project_loop api acts 0 None =
     Inr (if elems acts = [] then None
          else Some (map (\<lambda>a. \<lparr>inner_ID = uuid_String api (act_ID a),
                                 inner_OccursAt = Time (act_OccursAt a),
                                 inner_Title = act_Title a\<rparr>) (elems acts)))"
proof (cases "elems acts")
  case Nil
  then show ?thesis by (subst project_loop.simps) (simp add: len_def)
next
  case (Cons a as')
  then obtain as where acts: "acts = Some as" and as: "as = a # as'"
    by (cases acts) (auto simp: elems_def)
  have "project_loop api (Some as) 0 None =
      project_loop api (Some as) (Suc 0)
        (Some (map (\<lambda>a. \<lparr>inner_ID = uuid_String api (act_ID a),
                           inner_OccursAt = Time (act_OccursAt a),
                           inner_Title = act_Title a\<rparr>) (take (Suc 0) as)))"
    using as by (subst project_loop.simps) (simp add: at_def len_def elems_def append_slice_def)
  also have "\<dots> = Inr (Some (map (\<lambda>a. \<lparr>inner_ID = uuid_String api (act_ID a),
                                inner_OccursAt = Time (act_OccursAt a),
                                inner_Title = act_Title a\<rparr>) as))"
    using as by (intro project_loop_run) simp_all
  finally show ?thesis using acts as by (simp add: elems_def)
qed

lemma inner_loop_returns: "\<exists>r. inner_loop rs d y acc = Inr r"
proof (induction "len rs - y" arbitrary: y acc)
  case 0
  then show ?case by (subst inner_loop.simps) simp
next
  case (Suc k)
  then have lt: "y < len rs" by simp
  then have "at rs y = Inr (elems rs ! y)" by (simp add: at_def)
  moreover have "\<exists>r. inner_loop rs d (Suc y) acc' = Inr r" for acc'
    using Suc.hyps(1)[of "Suc y"] Suc.hyps(2) by simp
  ultimately show ?case using lt by (subst inner_loop.simps) simp
qed

lemma groups_loop_returns: "\<exists>r. groups_loop rs ds x acc = Inr r"
proof (induction "len ds - x" arbitrary: x acc)
  case 0
  then show ?case by (subst groups_loop.simps) simp
next
  case (Suc k)
  then have lt: "x < len ds" by simp
  then have a: "at ds x = Inr (elems ds ! x)" by (simp add: at_def)
  obtain inner where i: "inner_loop rs (elems ds ! x) 0 None = Inr inner"
    using inner_loop_returns by blast
  have "\<exists>r. groups_loop rs ds (Suc x) acc' = Inr r" for acc'
    using Suc.hyps(1)[of "Suc x"] Suc.hyps(2) by simp
  then show ?case using lt a i by (subst groups_loop.simps) simp
qed

lemma aggregate_panics_iff:
  "(\<exists>p. aggregate api acts = Inl p) \<longleftrightarrow>
   (\<exists>i. Suc (Suc i) < len acts \<and>
        Time (act_OccursAt (elems acts ! i)) = Time (act_OccursAt (elems acts ! Suc i)))"
proof (cases "elems acts = []")
  case True
  then show ?thesis
    by (simp add: aggregate_def project_loop_result len_def elems_def loop_simps)
next
  case False
  let ?rs = "map (\<lambda>a. \<lparr>inner_ID = uuid_String api (act_ID a),
                         inner_OccursAt = Time (act_OccursAt a),
                         inner_Title = act_Title a\<rparr>) (elems acts)"
  have "(\<exists>p. aggregate api acts = Inl p) \<longleftrightarrow> (\<exists>p. dates_loop (Some ?rs) 0 None = Inl p)"
  proof (cases "dates_loop (Some ?rs) 0 None")
    case (Inl p)
    then show ?thesis using False by (simp add: aggregate_def project_loop_result)
  next
    case (Inr ds)
    obtain g where "groups_loop (Some ?rs) ds 0 (if len ds = 0 then Some [] else None) = Inr g"
      using groups_loop_returns by blast
    then show ?thesis using False Inr by (simp add: aggregate_def project_loop_result)
  qed
  also have "\<dots> \<longleftrightarrow> (\<exists>i. Suc (Suc i) < length ?rs \<and>
        inner_OccursAt (?rs ! i) = inner_OccursAt (?rs ! Suc i))"
    by (rule dates_loop_panics_iff)
  also have "\<dots> \<longleftrightarrow> (\<exists>i. Suc (Suc i) < len acts \<and>
        Time (act_OccursAt (elems acts ! i)) = Time (act_OccursAt (elems acts ! Suc i)))"
    by (auto simp: len_def)
  finally show ?thesis .
qed

text \<open>An empty list of activities passes through the three loops untouched.\<close>

lemma aggregate_empty: "len acts = 0 \<Longrightarrow> aggregate api acts = Inr (Some [])"
  by (simp add: aggregate_def len_def elems_def loop_simps)

lemma aggregate_api_go_empty: "len acts = 0 \<Longrightarrow> aggregate_api_go api acts = Inr None"
  by (simp add: aggregate_api_go_def len_def elems_def loop_simps)

text \<open>
  When the trip has no activity, the handler of part_000 answers 200 with the empty,
  non-nil slice of date groups.
\<close>

theorem GetTripsTripIDActivities_empty:
  assumes "uuid_Parse api tripID = Some u"
    and "\<not> faults w (Call_GetTripActivities u)"
    and "filter (\<lambda>a. act_TripID a = u) (activities w) = []"
  shows "GetTripsTripIDActivities api w r tripID =
     Inr (JSON200Response (GetTripActivitiesResponse (Some [])),
          called (Call_GetTripActivities u) w)"
  using assms
  by (simp add: GetTripsTripIDActivities_def GetTripActivities_def aggregate_empty len_def
      elems_def slice_of_def)

theorem GetTripsTripIDActivities_empty_witness:
  "GetTripsTripIDActivities example_api (example_world [] no_fault) example_request trip1 =
     Inr (JSON200Response (GetTripActivitiesResponse (Some [])),
          called (Call_GetTripActivities 1) (example_world [] no_fault))"
  using GetTripsTripIDActivities_empty
    [of example_api trip1 1 "example_world [] no_fault" example_request]
  by (simp add: example_defs)

text \<open>
  The handler of internal/api/api.go has no statement that assigns the empty literal:
  there the slice of date groups of a trip without activities stays nil.
\<close>

theorem GetTripsTripIDActivities_api_go_empty:
  assumes "uuid_Parse api tripID = Some u"
    and "\<not> faults w (Call_GetTripActivities u)"
    and "filter (\<lambda>a. act_TripID a = u) (activities w) = []"
  shows "GetTripsTripIDActivities_api_go api w r tripID =
     Inr (JSON200Response (GetTripActivitiesResponse None),
          called (Call_GetTripActivities u) w)"
  using assms
  by (simp add: GetTripsTripIDActivities_api_go_def GetTripActivities_def
      aggregate_api_go_empty len_def elems_def slice_of_def)

text \<open>
  Claim C8. When the trip's activity list is empty, \<open>GetTripsTripIDActivities\<close> would
  return an explicitly empty sequence of date groups, not an absent one. The handler of
  part_000 does (above). The handler of internal/api/api.go, on a trip without
  activities, answers 200 with the nil slice, which is encoded as null.
\<close>

theorem GetTripsTripIDActivities_api_go_returns_nil:
  "GetTripsTripIDActivities_api_go example_api (example_world [] no_fault) example_request trip1 =
     Inr (JSON200Response (GetTripActivitiesResponse None),
          called (Call_GetTripActivities 1) (example_world [] no_fault))"
  using GetTripsTripIDActivities_api_go_empty
    [of example_api trip1 1 "example_world [] no_fault" example_request]
  by (simp add: example_defs)

section \<open>Confirmation of participants and trips\<close>

text \<open>
  Claim C7. When the participant found under the id is already confirmed, the handler
  answers 400 "participant already confirmed"; the only gateway call is the read
  \<open>GetParticipant\<close>, and nothing of the world changes but the call trace.
\<close>

theorem PatchParticipantsParticipantIDConfirm_already_confirmed:
  assumes "uuid_Parse api participantID = Some pid"
    and "\<not> faults w (Call_GetParticipant pid)"
    and "find (\<lambda>p. part_ID p = pid) (participants w) = Some p"
    and "part_IsConfirmed p"
  shows "PatchParticipantsParticipantIDConfirm api w r participantID =
     (JSON400Response ''participant already confirmed'',
      w\<lparr>calls := calls w @ [Call_GetParticipant pid]\<rparr>)"
  using assms
  by (simp add: PatchParticipantsParticipantIDConfirm_def GetParticipant_def called_def)

theorem PatchParticipantsParticipantIDConfirm_already_confirmed_witness:
  "PatchParticipantsParticipantIDConfirm example_api (example_world [] no_fault)
     example_request participant7 =
     (JSON400Response ''participant already confirmed'',
      (example_world [] no_fault)\<lparr>calls := [Call_GetParticipant 7]\<rparr>)"
proof -
  have found: "find (\<lambda>p. part_ID p = 7) (participants (example_world [] no_fault)) =
      Some example_participant"
    by simp
  have ok: "\<not> faults (example_world [] no_fault) (Call_GetParticipant 7)"
    by (simp add: no_fault_def)
  have confirmed: "part_IsConfirmed example_participant"
    by simp
  from PatchParticipantsParticipantIDConfirm_already_confirmed
    [OF example_api_simps(2) ok found confirmed, of example_request]
  show ?thesis by simp
qed

text \<open>The trip-confirm handler writes no trip row, whatever its input.\<close>

lemma GetTripsTripIDConfirm_trips_unchanged:
  "trips (snd (GetTripsTripIDConfirm api w r tripID)) = trips w"
  by (simp add: GetTripsTripIDConfirm_def GetTrip_def ConfirmParticipant_def
      split: option.splits sum.splits)

text \<open>
  Claim C1. After a successful trip-confirm call the stored trip would have
  \<open>is_confirmed = true\<close>. On an existing, unconfirmed trip the handler answers 204,
  and the trip is still unconfirmed: the gateway calls are \<open>GetTrip\<close> and
  \<open>ConfirmParticipant\<close> with the trip's id.
\<close>

theorem GetTripsTripIDConfirm_trip_stays_unconfirmed:
  "fst (GetTripsTripIDConfirm example_api (example_world [] no_fault) example_request trip1) =
     JSON204Response Nil_body \<and>
   map trip_IsConfirmed
     (trips (snd (GetTripsTripIDConfirm example_api (example_world [] no_fault)
                    example_request trip1))) = [False] \<and>
   calls (snd (GetTripsTripIDConfirm example_api (example_world [] no_fault)
                 example_request trip1)) =
     [Call_GetTrip 1, Call_ConfirmParticipant 1]"
  by (simp add: GetTripsTripIDConfirm_def GetTrip_def ConfirmParticipant_def no_fault_def)

text \<open>The handler takes nothing from the API value but \<open>uuid.Parse\<close>.\<close>

lemma GetTripsTripIDConfirm_reads_uuid_Parse_only:
  "uuid_Parse api' = uuid_Parse api \<Longrightarrow>
   GetTripsTripIDConfirm api' w r tripID = GetTripsTripIDConfirm api w r tripID"
  by (simp add: GetTripsTripIDConfirm_def)

text \<open>
  The mailer reads the gateway and sends: of the world it changes the call trace and the
  messages sent, and nothing else.
\<close>

lemma SendEmailInvitations_frame:
  "(snd (SendEmailInvitations api w u))\<lparr>calls := calls w, sent := sent w\<rparr> = w"
  by (simp add: SendEmailInvitations_def GetTrip_def GetParticipants_def called_def Let_def
      split: option.splits sum.splits)

lemma SendEmailInvitations_logs:
  "logs (snd (SendEmailInvitations api w u)) = logs w"
  by (simp add: SendEmailInvitations_def GetTrip_def GetParticipants_def Let_def
      split: option.splits sum.splits)

lemma run_goroutine_frame:
  "(run_goroutine api (Go_SendEmailInvitations u) w)
     \<lparr>calls := calls w, logs := logs w, sent := sent w\<rparr> = w"
proof -
  obtain e w1 where r: "SendEmailInvitations api w u = (e, w1)"
    by (cases "SendEmailInvitations api w u")
  have f: "w1\<lparr>calls := calls w, sent := sent w\<rparr> = w"
    using SendEmailInvitations_frame [where api = api and w = w and u = u] r by simp
  have "w1\<lparr>calls := calls w, logs := logs w, sent := sent w\<rparr> =
        (w1\<lparr>calls := calls w, sent := sent w\<rparr>)\<lparr>logs := logs w\<rparr>"
    by simp
  also have "\<dots> = w"
    by (simp add: f)
  finally have "w1\<lparr>calls := calls w, logs := logs w, sent := sent w\<rparr> = w" .
  then show ?thesis
    using r by (cases e) (simp_all add: run_goroutine_def logger_Error_def)
qed

lemma run_goroutine_logs:
  "logs (run_goroutine api (Go_SendEmailInvitations u) w) =
     logs w @ (case fst (SendEmailInvitations api w u) of
                 None \<Rightarrow> []
               | Some err \<Rightarrow> [''failed to send email on GetTripsTripIDConfirm''])"
  using SendEmailInvitations_logs [where api = api and w = w and u = u]
  by (cases "SendEmailInvitations api w u")
     (auto simp add: run_goroutine_def split: option.splits)

text \<open>The goroutine's gateway calls are the mailer's two reads.\<close>

lemma run_goroutine_calls:
  "calls (run_goroutine api (Go_SendEmailInvitations u) w) =
     calls w @
       (if faults w (Call_GetTrip u) \<or> find (\<lambda>t. trip_ID t = u) (trips w) = None
        then [Call_GetTrip u]
        else [Call_GetTrip u, Call_GetParticipants u])"
  by (simp add: run_goroutine_def SendEmailInvitations_def GetTrip_def GetParticipants_def
      Let_def split: option.splits sum.splits)

lemma example_confirm:
  "GetTripsTripIDConfirm example_api (example_world [] no_fault) example_request trip1 =
     (JSON204Response Nil_body,
      (example_world [] no_fault)
        \<lparr>calls := [Call_GetTrip 1, Call_ConfirmParticipant 1],
         goroutines := [Go_SendEmailInvitations 1]\<rparr>)"
  by (simp add: GetTripsTripIDConfirm_def GetTrip_def ConfirmParticipant_def no_fault_def
      called_def example_world_def example_participant_def)

text \<open>
  Claim C10. Take a confirm call on an existing trip whose gateway calls succeed, and any
  second API value \<open>api'\<close> that differs from \<open>api\<close> in the mail library only, so that
  \<open>SendEmailInvitations\<close> may succeed under one and fail under the other. The handler
  returns the same under both; the answer is the success 204, exactly one goroutine for
  the trip is started, and the handler itself logs nothing. When the goroutine runs, in
  whatever world \<open>w'\<close> it finds, it changes nothing of the world but the call trace (its
  two reads), the messages sent and the log; the log gains one entry when
  \<open>SendEmailInvitations\<close> returns an error and none otherwise.
\<close>

theorem GetTripsTripIDConfirm_independent_of_mailer:
  assumes parse: "uuid_Parse api tripID = Some u"
    and same: "uuid_Parse api' = uuid_Parse api"
    and ok: "\<not> faults w (Call_GetTrip u)"
    and found: "find (\<lambda>t. trip_ID t = u) (trips w) = Some t"
    and confirmed: "\<not> faults w (Call_ConfirmParticipant u)"
  shows "GetTripsTripIDConfirm api' w r tripID = GetTripsTripIDConfirm api w r tripID \<and>
         fst (GetTripsTripIDConfirm api w r tripID) = JSON204Response Nil_body \<and>
         goroutines (snd (GetTripsTripIDConfirm api w r tripID)) =
           goroutines w @ [Go_SendEmailInvitations u] \<and>
         logs (snd (GetTripsTripIDConfirm api w r tripID)) = logs w \<and>
         (run_goroutine api' (Go_SendEmailInvitations u) w')
           \<lparr>calls := calls w', logs := logs w', sent := sent w'\<rparr> = w' \<and>
         logs (run_goroutine api' (Go_SendEmailInvitations u) w') =
           logs w' @ (case fst (SendEmailInvitations api' w' u) of
                        None \<Rightarrow> []
                      | Some err \<Rightarrow> [''failed to send email on GetTripsTripIDConfirm''])"
proof -
  have "GetTripsTripIDConfirm api w r tripID =
      (JSON204Response Nil_body,
       (snd (ConfirmParticipant (called (Call_GetTrip u) w) u))
         \<lparr>goroutines := goroutines w @ [Go_SendEmailInvitations u]\<rparr>)"
    using parse ok found confirmed
    by (simp add: GetTripsTripIDConfirm_def GetTrip_def ConfirmParticipant_def)
  moreover have "logs (snd (ConfirmParticipant (called (Call_GetTrip u) w) u)) = logs w"
    by (simp add: ConfirmParticipant_def)
  ultimately show ?thesis
    using GetTripsTripIDConfirm_reads_uuid_Parse_only [OF same, of w r tripID]
      run_goroutine_frame [where api = api' and u = u and w = w']
      run_goroutine_logs [where api = api' and u = u and w = w']
    by simp
qed

theorem GetTripsTripIDConfirm_independent_of_mailer_witness:
  "GetTripsTripIDConfirm (example_api\<lparr>mail_DialAndSend := smtp_down\<rparr>)
     (example_world [] no_fault) example_request trip1 =
     GetTripsTripIDConfirm example_api (example_world [] no_fault) example_request trip1 \<and>
   fst (GetTripsTripIDConfirm example_api (example_world [] no_fault) example_request trip1) =
     JSON204Response Nil_body \<and>
   goroutines (snd (GetTripsTripIDConfirm example_api (example_world [] no_fault)
                      example_request trip1)) = [Go_SendEmailInvitations 1] \<and>
   logs (run_goroutine (example_api\<lparr>mail_DialAndSend := smtp_down\<rparr>)
           (Go_SendEmailInvitations 1)
           (snd (GetTripsTripIDConfirm example_api (example_world [] no_fault)
                   example_request trip1))) =
     [''failed to send email on GetTripsTripIDConfirm''] \<and>
   trips (run_goroutine (example_api\<lparr>mail_DialAndSend := smtp_down\<rparr>)
            (Go_SendEmailInvitations 1)
            (snd (GetTripsTripIDConfirm example_api (example_world [] no_fault)
                    example_request trip1))) = [example_trip]"
proof -
  let ?w = "example_world [] no_fault"
  let ?down = "example_api\<lparr>mail_DialAndSend := smtp_down\<rparr>"
  let ?w' = "snd (GetTripsTripIDConfirm example_api ?w example_request trip1)"
  have same: "uuid_Parse ?down = uuid_Parse example_api"
    by simp
  have ok: "\<not> faults ?w (Call_GetTrip 1)"
    by (simp add: no_fault_def)
  have found: "find (\<lambda>t. trip_ID t = 1) (trips ?w) = Some example_trip"
    by simp
  have confirmed: "\<not> faults ?w (Call_ConfirmParticipant 1)"
    by (simp add: no_fault_def)
  have fails: "fst (SendEmailInvitations ?down ?w' 1) =
      Some (Errorf ''mailpit: failed send email client SendEmailInvitations''
              (Lib_cause ''dial tcp 127.0.0.1:1025: connect: connection refused''))"
    by (simp add: example_confirm SendEmailInvitations_def GetTrip_def GetParticipants_def
        slice_of_def elems_def Let_def no_fault_def example_participant_def smtp_down_def)
  have frame: "trips ((run_goroutine ?down (Go_SendEmailInvitations 1) ?w')
                 \<lparr>calls := calls ?w', logs := logs ?w', sent := sent ?w'\<rparr>) =
               trips (run_goroutine ?down (Go_SendEmailInvitations 1) ?w')"
    by simp
  from GetTripsTripIDConfirm_independent_of_mailer
    [OF example_api_simps(1) same ok found confirmed, of example_request ?w'] fails frame
  show ?thesis
    by (simp add: example_confirm)
qed

section \<open>Creating an activity\<close>

text \<open>
  Claim C4. On an existing trip the handler hands \<open>CreateActivity\<close> the trip's id, the
  empty title and the zero timestamp (marked valid), and its result is the same for
  every request: the body is never read.
\<close>

theorem PostTripsTripIDActivities_ignores_body:
  assumes "uuid_Parse api tripID = Some u"
    and "\<not> faults w (Call_GetTrip u)"
    and "find (\<lambda>t. trip_ID t = u) (trips w) = Some t"
  shows "calls (snd (PostTripsTripIDActivities api w r tripID)) =
           calls w @
             [Call_GetTrip u,
              Call_CreateActivity
                \<lparr>cap_TripID = u, cap_Title = [],
                 cap_OccursAt = \<lparr>Time = zero_time, Valid = True\<rparr>\<rparr>] \<and>
         PostTripsTripIDActivities api w r tripID = PostTripsTripIDActivities api w r' tripID"
  using assms
  by (simp add: PostTripsTripIDActivities_def GetTrip_def CreateActivity_def Let_def)

theorem PostTripsTripIDActivities_ignores_body_witness:
  "calls (snd (PostTripsTripIDActivities example_api (example_world [] no_fault)
                 example_request trip1)) =
     [Call_GetTrip 1,
      Call_CreateActivity
        \<lparr>cap_TripID = 1, cap_Title = [],
         cap_OccursAt = \<lparr>Time = zero_time, Valid = True\<rparr>\<rparr>] \<and>
   PostTripsTripIDActivities example_api (example_world [] no_fault) example_request trip1 =
     PostTripsTripIDActivities example_api (example_world [] no_fault)
       \<lparr>req_Body = ''title=Praia;occurs_at=2024-07-10T09:00:00Z''\<rparr> trip1"
proof -
  have found: "find (\<lambda>t. trip_ID t = 1) (trips (example_world [] no_fault)) = Some example_trip"
    by simp
  have ok: "\<not> faults (example_world [] no_fault) (Call_GetTrip 1)"
    by (simp add: no_fault_def)
  from PostTripsTripIDActivities_ignores_body [OF example_api_simps(1) ok found,
      of example_request
         "\<lparr>req_Body = ''title=Praia;occurs_at=2024-07-10T09:00:00Z''\<rparr>"]
  show ?thesis unfolding example_world_simps append_Nil .
qed

section \<open>Updating a trip\<close>

text \<open>
  Claim C9. The handler compares no dates itself: it asks the validator and returns when
  the validator reports an error. With a validator that rejects every body whose EndsAt
  is before its StartsAt, an update with such a body is answered 400, the trips are
  unchanged and \<open>UpdateTrip\<close> is not called; when the trip is found, the answer is the
  validation failure "invalid input: ..." and the only gateway call is \<open>GetTrip\<close>.
\<close>

theorem PutTripsTripID_rejects_inverted_range:
  assumes rule: "\<And>b. Before (EndsAt b) (StartsAt b) \<Longrightarrow> validator_UpdateTripRequest api b \<noteq> None"
    and dec: "Decode_UpdateTripRequest api (req_Body r) = (errJson, body)"
    and inv: "Before (EndsAt body) (StartsAt body)"
  shows "(\<exists>Message. fst (PutTripsTripID api w r tripID) = JSON400Response Message) \<and>
         trips (snd (PutTripsTripID api w r tripID)) = trips w \<and>
         filter is_UpdateTrip (calls (snd (PutTripsTripID api w r tripID))) =
           filter is_UpdateTrip (calls w) \<and>
         (uuid_Parse api tripID = Some u \<and> \<not> faults w (Call_GetTrip u) \<and>
          find (\<lambda>t. trip_ID t = u) (trips w) = Some t \<longrightarrow>
            (\<exists>e. validator_UpdateTripRequest api body = Some e \<and>
                 PutTripsTripID api w r tripID =
                   (JSON400Response (''invalid input: '' @ e), called (Call_GetTrip u) w)))"
  using rule [OF inv] dec
  by (auto simp add: PutTripsTripID_def GetTrip_def split: option.splits sum.splits)

theorem PutTripsTripID_rejects_inverted_range_witness:
  "trips (snd (PutTripsTripID (example_api\<lparr>validator_UpdateTripRequest := validate_date_range\<rparr>)
                 (example_world [] no_fault) example_request trip1)) = [example_trip] \<and>
   filter is_UpdateTrip
     (calls (snd (PutTripsTripID (example_api\<lparr>validator_UpdateTripRequest := validate_date_range\<rparr>)
                    (example_world [] no_fault) example_request trip1))) = [] \<and>
   PutTripsTripID (example_api\<lparr>validator_UpdateTripRequest := validate_date_range\<rparr>)
     (example_world [] no_fault) example_request trip1 =
     (JSON400Response ''invalid input: EndsAt is before StartsAt'',
      called (Call_GetTrip 1) (example_world [] no_fault))"
proof -
  let ?api = "example_api\<lparr>validator_UpdateTripRequest := validate_date_range\<rparr>"
  have rule: "\<And>b. Before (EndsAt b) (StartsAt b) \<Longrightarrow> validator_UpdateTripRequest ?api b \<noteq> None"
    by (simp add: validate_date_range_def)
  have dec: "Decode_UpdateTripRequest ?api (req_Body example_request) =
      (None, \<lparr>Destination = req_Body example_request, EndsAt = dateA, StartsAt = dateB\<rparr>)"
    by simp
  have inv: "Before (EndsAt \<lparr>Destination = req_Body example_request, EndsAt = dateA, StartsAt = dateB\<rparr>)
       (StartsAt \<lparr>Destination = req_Body example_request, EndsAt = dateA, StartsAt = dateB\<rparr>)"
    by (simp add: Before_def dateA_def dateB_def)
  from PutTripsTripID_rejects_inverted_range [OF rule dec inv,
      of "example_world [] no_fault" trip1 1 example_trip]
  show ?thesis
    by (simp add: validate_date_range_def no_fault_def Before_def dateA_def dateB_def)
qed

section \<open>Inviting a participant\<close>

text \<open>
  The participants table after the handler: one new unconfirmed row when the answer is
  201, and the table as it was on every other path.
\<close>

lemma PostTripsTripIDInvites_participants:
  "participants (snd (PostTripsTripIDInvites api w r tripID)) =
     (if fst (PostTripsTripIDInvites api w r tripID) = JSON201Response Nil_body
      then participants w @
             [\<lparr>part_ID = next_id w, part_TripID = the (uuid_Parse api tripID),
               part_Email = Email (snd (Decode_InvitesBody api (req_Body r))),
               part_IsConfirmed = False\<rparr>]
      else participants w)"
  by (simp add: PostTripsTripIDInvites_def GetTrip_def tx_defs
      split: option.splits sum.splits prod.splits)

text \<open>A validation failure is answered before any transaction is begun.\<close>

lemma PostTripsTripIDInvites_validation_failure:
  assumes "uuid_Parse api tripID = Some u"
    and "\<not> faults w (Call_GetTrip u)"
    and "find (\<lambda>t. trip_ID t = u) (trips w) = Some t"
    and "Decode_InvitesBody api (req_Body r) = (errJson, body)"
    and "validator_InvitesBody api body = Some e"
  shows "PostTripsTripIDInvites api w r tripID =
     (JSON400Response (''invalid input: '' @ e), called (Call_GetTrip u) w)"
  using assms by (simp add: PostTripsTripIDInvites_def GetTrip_def)

text \<open>
  Claim C6. Once the transaction has begun, if the insert of the participant or the
  commit fails, the participants table is as it was before the call, the transaction is
  closed with nothing staged, the last gateway call is the deferred \<open>Rollback\<close>, and the
  answer names the step that failed: the answer to a failed commit is not the answer to
  any validation failure ("invalid input: ...").
\<close>

theorem PostTripsTripIDInvites_all_or_nothing:
  assumes parse: "uuid_Parse api tripID = Some u"
    and ok: "\<not> faults w (Call_GetTrip u)"
    and found: "find (\<lambda>t. trip_ID t = u) (trips w) = Some t"
    and dec: "Decode_InvitesBody api (req_Body r) = (errJson, body)"
    and valid: "validator_InvitesBody api body = None"
    and started: "\<not> faults w Call_Begin"
    and fail: "faults w (Call_InviteParticipantsToTrip [\<lparr>ipp_TripID = u, ipp_Email = Email body\<rparr>])
               \<or> faults w Call_Commit"
  shows "participants (snd (PostTripsTripIDInvites api w r tripID)) = participants w \<and>
         \<not> tx_open (snd (PostTripsTripIDInvites api w r tripID)) \<and>
         tx_pending (snd (PostTripsTripIDInvites api w r tripID)) = [] \<and>
         last (calls (snd (PostTripsTripIDInvites api w r tripID))) = Call_Rollback \<and>
         fst (PostTripsTripIDInvites api w r tripID) =
           (if faults w (Call_InviteParticipantsToTrip [\<lparr>ipp_TripID = u, ipp_Email = Email body\<rparr>])
            then JSON400Response ''pgstore: failed to insert participants for PostTripsTripIDInvites''
            else JSON400Response ''pgstore: failed to commit tx for PostTripsTripIDInvites'') \<and>
         (\<forall>e. fst (PostTripsTripIDInvites api w r tripID) \<noteq>
                JSON400Response (''invalid input: '' @ e))"
  using assms
  by (auto simp add: PostTripsTripIDInvites_def GetTrip_def tx_defs)

theorem PostTripsTripIDInvites_all_or_nothing_witness:
  "participants (snd (PostTripsTripIDInvites example_api (example_world [] commit_fails)
                        example_request trip1)) = [example_participant] \<and>
   \<not> tx_open (snd (PostTripsTripIDInvites example_api (example_world [] commit_fails)
                     example_request trip1)) \<and>
   tx_pending (snd (PostTripsTripIDInvites example_api (example_world [] commit_fails)
                      example_request trip1)) = [] \<and>
   last (calls (snd (PostTripsTripIDInvites example_api (example_world [] commit_fails)
                       example_request trip1))) = Call_Rollback \<and>
   fst (PostTripsTripIDInvites example_api (example_world [] commit_fails)
          example_request trip1) =
     JSON400Response ''pgstore: failed to commit tx for PostTripsTripIDInvites''"
proof -
  have ok: "\<not> faults (example_world [] commit_fails) (Call_GetTrip 1)"
    by (simp add: commit_fails_def)
  have found: "find (\<lambda>t. trip_ID t = 1) (trips (example_world [] commit_fails)) = Some example_trip"
    by simp
  have started: "\<not> faults (example_world [] commit_fails) Call_Begin"
    by (simp add: commit_fails_def)
  have fail: "faults (example_world [] commit_fails)
        (Call_InviteParticipantsToTrip
           [\<lparr>ipp_TripID = 1, ipp_Email = Email \<lparr>Email = req_Body example_request\<rparr>\<rparr>])
      \<or> faults (example_world [] commit_fails) Call_Commit"
    by (simp add: commit_fails_def)
  from PostTripsTripIDInvites_all_or_nothing
    [OF example_api_simps(1) ok found example_api_simps(4) example_api_simps(6) started fail]
  show ?thesis
    by (simp add: commit_fails_def)
qed

end
